theory Spec2Isabelle
  imports Main "HOL-Library.Word"
begin

unbundle bit_operations_syntax

section \<open>Machine integers, bytes and strings\<close>

text \<open>
  Go's \<open>int32\<close> and \<open>int64\<close> are words; comparisons of \<open>int32\<close> values are signed
  (\<open><s\<close>), \<open>++\<close> wraps. A Go \<open>string\<close> is a sequence of bytes, as an Isabelle
  \<open>string\<close> is; \<open>[]byte(s)\<close> and \<open>string(b)\<close> convert between the two.
\<close>

type_synonym byte = "8 word"
type_synonym int32 = "32 word"
type_synonym int64 = "64 word"

definition bytes_of_string :: "string \<Rightarrow> byte list" where
  "bytes_of_string s = map (\<lambda>c. word_of_nat (of_char c)) s"

definition string_of_bytes :: "byte list \<Rightarrow> string" where
  "string_of_bytes bs = map (\<lambda>b. char_of (unat b)) bs"

text \<open>\<open>binary.Write(buf, binary.LittleEndian, v)\<close> for a 32-bit value: four bytes, lowest first.\<close>

definition put_le32 :: "int32 \<Rightarrow> byte list" where
  "put_le32 v = [ucast v, ucast (drop_bit 8 v), ucast (drop_bit 16 v), ucast (drop_bit 24 v)]"

text \<open>\<open>binary.Read(r, binary.LittleEndian, &v)\<close> on the next four bytes of a reader. The
  callers only read from buffers that hold at least four bytes; on a shorter one the
  read fails, which is \<open>None\<close>.\<close>

fun get_le32 :: "byte list \<Rightarrow> int32 option" where
  "get_le32 (b0 # b1 # b2 # b3 # rest) =
     Some (ucast b0 OR push_bit 8 (ucast b1) OR push_bit 16 (ucast b2) OR push_bit 24 (ucast b3))"
| "get_le32 _ = None"

section \<open>Errors\<close>

text \<open>
  The source builds its errors from message strings. Each message is a constructor here:
  \<^item> \<open>AlreadyConnected\<close>: "already connected";
  \<^item> \<open>NotConnected\<close>: "not connected";
  \<^item> \<open>AlreadyAuthenticated\<close>: "already authenticated";
  \<^item> \<open>NotAuthenticated\<close>: "not authenticated";
  \<^item> \<open>AuthenticationFailed\<close>: "authentication failed: invalid password";
  \<^item> \<open>UnexpectedResponse\<close>: "authentication failed: unexpected response ID";
  \<^item> \<open>ResponseMismatch\<close>: "response ID mismatch";
  \<^item> \<open>InvalidPacketSize n\<close>: "invalid packet size: n";
  \<^item> \<open>DuplicateSession id\<close>: "session with ID id already exists";
  \<^item> \<open>SessionNotFound id\<close>: "session with ID id not found";
  \<^item> \<open>TransportError op\<close>: the error value returned by the network layer for \<open>op\<close>;
  \<^item> \<open>Wrapped msg e\<close>: \<open>fmt.Errorf("msg: %w", e)\<close>;
  \<^item> \<open>NilPointerPanic\<close>: a method call through a nil pointer or nil interface. It is not
    an error value of the source but a panic; it unwinds through every caller.
\<close>

datatype transport_op = Dial | Read | Write | Close | SetReadDeadline | SetWriteDeadline

datatype error =
    AlreadyConnected
  | NotConnected
  | AlreadyAuthenticated
  | NotAuthenticated
  | AuthenticationFailed
  | UnexpectedResponse
  | ResponseMismatch
  | InvalidPacketSize int32
  | DuplicateSession string
  | SessionNotFound string
  | TransportError transport_op
  | Wrapped string error
  | NilPointerPanic

definition errorf :: "string \<Rightarrow> error \<Rightarrow> error" where
  "errorf msg e = (if e = NilPointerPanic then NilPointerPanic else Wrapped msg e)"

section \<open>The transport\<close>

text \<open>
  \<open>net.Conn\<close> is an interface to the outside world. Its state here: the bytes the peer
  delivers to the next reads before their deadline (\<open>rx\<close>), the buffers handed to
  \<open>Write\<close> so far (\<open>tx\<close>), and for each fallible method whether its next call fails.
\<close>

record net_conn =
  rx :: "byte list"
  tx :: "byte list list"
  read_deadline_err :: bool
  read_err :: bool
  write_deadline_err :: bool
  write_err :: bool
  close_err :: bool

text \<open>\<open>io.ReadFull(conn, buf)\<close> with \<open>len(buf) = n\<close>: exactly \<open>n\<close> bytes, or an error
  after consuming what was there.\<close>

definition ReadFull :: "net_conn \<Rightarrow> nat \<Rightarrow> (error + byte list) \<times> net_conn" where
  "ReadFull k n =
     (if read_err k then (Inl (TransportError Read), k)
      else if length (rx k) < n then (Inl (TransportError Read), k\<lparr>rx := []\<rparr>)
      else (Inr (take n (rx k)), k\<lparr>rx := drop n (rx k)\<rparr>))"

section \<open>Packets and the client\<close>

type_synonym PacketType = int32

definition PacketTypeAuth :: PacketType where "PacketTypeAuth = 3"
definition PacketTypeAuthResponse :: PacketType where "PacketTypeAuthResponse = 2"
definition PacketTypeCommand :: PacketType where "PacketTypeCommand = 2"
definition PacketTypeResponse :: PacketType where "PacketTypeResponse = 0"

definition maxPacketSize :: int32 where "maxPacketSize = 4096"

record Packet =
  Size :: int32
  ID :: int32
  Type :: PacketType
  Body :: string

text \<open>The zero value \<open>&Packet{}\<close>.\<close>

definition zeroPacket :: Packet where
  "zeroPacket = \<lparr>Size = 0, ID = 0, Type = 0, Body = []\<rparr>"

text \<open>The mutex of the source is left out: the model is one sequential caller.\<close>

record Client =
  conn :: "net_conn option"
  requestID :: int32
  isConnected :: bool
  isAuthorized :: bool

definition NewClient :: Client where
  "NewClient = \<lparr>conn = None, requestID = 1, isConnected = False, isAuthorized = False\<rparr>"

definition getNextRequestID :: "Client \<Rightarrow> int32 \<times> Client" where
  "getNextRequestID c = (requestID c, c\<lparr>requestID := requestID c + 1\<rparr>)"

text \<open>
  \<open>sendPacket\<close> sets \<open>packet.Size = int32(len(bodyBytes) + 10)\<close> (a truncating
  conversion), fills a buffer and hands it to one \<open>Write\<close>. The writes into the
  \<open>bytes.Buffer\<close> cannot fail, so their error branches are not modelled.
  \<open>packetBuffer\<close> is the buffer built, \<open>sendPacket\<close> the whole function; it returns the
  packet too, since the caller's packet is updated through the pointer.
\<close>

definition packetSize :: "Packet \<Rightarrow> int32" where
  "packetSize packet = word_of_nat (length (bytes_of_string (Body packet)) + 10)"

definition packetBuffer :: "Packet \<Rightarrow> byte list" where
  "packetBuffer packet =
     put_le32 (Size packet) @ put_le32 (ID packet) @ put_le32 (Type packet)
       @ bytes_of_string (Body packet) @ [0] @ [0]"

definition sendPacket :: "Client \<Rightarrow> Packet \<Rightarrow> error option \<times> Client \<times> Packet" where
  "sendPacket c packet0 =
     (let packet = packet0\<lparr>Size := packetSize packet0\<rparr>;
          buf = packetBuffer packet
      in case conn c of
           None \<Rightarrow> (Some NilPointerPanic, c, packet)
         | Some k \<Rightarrow>
             if write_deadline_err k
             then (Some (Wrapped ''failed to set write deadline'' (TransportError SetWriteDeadline)),
                   c, packet)
             else if write_err k then (Some (TransportError Write), c, packet)
             else (None, c\<lparr>conn := Some (k\<lparr>tx := tx k @ [buf]\<rparr>)\<rparr>, packet))"

text \<open>
  \<open>readPacket\<close>: the size field, the bounds check, the rest of the packet, then the
  fields. The returned packet's \<open>Size\<close> stays at its zero value, as in the source.
  Both \<open>binary.Read\<close> calls on the packet buffer find their four bytes, since the buffer
  holds at least ten; their error branches are kept.
\<close>

definition readPacket :: "Client \<Rightarrow> (error + Packet) \<times> Client" where
  "readPacket c =
     (case conn c of
        None \<Rightarrow> (Inl NilPointerPanic, c)
      | Some k \<Rightarrow>
          if read_deadline_err k
          then (Inl (Wrapped ''failed to set read deadline'' (TransportError SetReadDeadline)), c)
          else
            (case ReadFull k 4 of
               (Inl e, k1) \<Rightarrow> (Inl e, c\<lparr>conn := Some k1\<rparr>)
             | (Inr sizeBuf, k1) \<Rightarrow>
                 (case get_le32 sizeBuf of
                    None \<Rightarrow> (Inl (TransportError Read), c\<lparr>conn := Some k1\<rparr>)
                  | Some psize \<Rightarrow>
                      if psize <s 10 \<or> maxPacketSize <s psize
                      then (Inl (InvalidPacketSize psize), c\<lparr>conn := Some k1\<rparr>)
                      else
                        (case ReadFull k1 (nat (sint psize)) of
                           (Inl e, k2) \<Rightarrow> (Inl e, c\<lparr>conn := Some k2\<rparr>)
                         | (Inr packetBuf, k2) \<Rightarrow>
                             (case get_le32 packetBuf of
                                None \<Rightarrow> (Inl (TransportError Read), c\<lparr>conn := Some k2\<rparr>)
                              | Some pid \<Rightarrow>
                                  (case get_le32 (drop 4 packetBuf) of
                                     None \<Rightarrow> (Inl (TransportError Read), c\<lparr>conn := Some k2\<rparr>)
                                   | Some pType \<Rightarrow>
                                       (Inr (zeroPacket\<lparr>ID := pid, Type := pType,
                                               Body := string_of_bytes
                                                 (take (length packetBuf - 2 - 8) (drop 8 packetBuf))\<rparr>),
                                        c\<lparr>conn := Some k2\<rparr>)))))))"


text \<open>
  \<open>net.DialTimeout\<close> belongs to the outside world: \<open>dial address\<close> is the connection it
  returns, \<open>None\<close> when it fails. Every method returns the client too, which the source
  updates in place.
\<close>

definition Client_Connect ::
  "(string \<Rightarrow> net_conn option) \<Rightarrow> Client \<Rightarrow> string \<Rightarrow> error option \<times> Client" where
  "Client_Connect dial c address =
     (if isConnected c then (Some AlreadyConnected, c)
      else case dial address of
             None \<Rightarrow> (Some (Wrapped ''failed to connect'' (TransportError Dial)), c)
           | Some k \<Rightarrow> (None, c\<lparr>conn := Some k, isConnected := True\<rparr>))"

definition Client_Authenticate :: "Client \<Rightarrow> string \<Rightarrow> error option \<times> Client" where
  "Client_Authenticate c password =
     (if \<not> isConnected c then (Some NotConnected, c)
      else if isAuthorized c then (Some AlreadyAuthenticated, c)
      else
        (case getNextRequestID c of
           (rid, c1) \<Rightarrow>
             (case sendPacket c1 \<lparr>Size = 0, ID = rid, Type = PacketTypeAuth, Body = password\<rparr> of
                (Some err, c2, authPacket) \<Rightarrow> (Some (errorf ''failed to send auth packet'' err), c2)
              | (None, c2, authPacket) \<Rightarrow>
                  (case readPacket c2 of
                     (Inl err, c3) \<Rightarrow> (Some (errorf ''failed to read auth response'' err), c3)
                   | (Inr response, c3) \<Rightarrow>
                       if ID response = - 1 then (Some AuthenticationFailed, c3)
                       else if ID response \<noteq> ID authPacket then (Some UnexpectedResponse, c3)
                       else (None, c3\<lparr>isAuthorized := True\<rparr>)))))"

definition Client_Execute :: "Client \<Rightarrow> string \<Rightarrow> (error + string) \<times> Client" where
  "Client_Execute c command =
     (if \<not> isConnected c then (Inl NotConnected, c)
      else if \<not> isAuthorized c then (Inl NotAuthenticated, c)
      else
        (case getNextRequestID c of
           (rid, c1) \<Rightarrow>
             (case sendPacket c1 \<lparr>Size = 0, ID = rid, Type = PacketTypeCommand, Body = command\<rparr> of
                (Some err, c2, cmdPacket) \<Rightarrow> (Inl (errorf ''failed to send command'' err), c2)
              | (None, c2, cmdPacket) \<Rightarrow>
                  (case readPacket c2 of
                     (Inl err, c3) \<Rightarrow> (Inl (errorf ''failed to read response'' err), c3)
                   | (Inr response, c3) \<Rightarrow>
                       if ID response \<noteq> ID cmdPacket then (Inl ResponseMismatch, c3)
                       else (Inr (Body response), c3)))))"

definition Client_Disconnect :: "Client \<Rightarrow> error option \<times> Client" where
  "Client_Disconnect c =
     (if \<not> isConnected c then (None, c)
      else case conn c of
             None \<Rightarrow> (Some NilPointerPanic, c)
           | Some k \<Rightarrow>
               if close_err k
               then (Some (Wrapped ''failed to close connection'' (TransportError Close)), c)
               else (None, c\<lparr>conn := None, isConnected := False, isAuthorized := False\<rparr>))"

definition IsConnected :: "Client \<Rightarrow> bool" where
  "IsConnected c = isConnected c"

definition IsAuthenticated :: "Client \<Rightarrow> bool" where
  "IsAuthenticated c = isAuthorized c"

section \<open>The session registry\<close>

text \<open>
  A \<open>Session\<close> holds a pointer to its \<open>Client\<close>, and the caller of \<open>CreateSession\<close> or
  \<open>GetSession\<close> works on that same client. So the clients live in a heap, a list indexed
  by address; \<open>NewClient()\<close> allocates at the end of it, and nothing is ever freed. An
  address outside the heap stands for a nil pointer. The fields of a \<open>Session\<close> are never
  written after its creation, so sessions are values. The world is the heap together with
  the map of the session manager; the current time is an input.
\<close>

record Session =
  sess_ID :: string
  sess_Client :: nat
  sess_Address :: string
  sess_Name :: string
  sess_Created :: int64

record world =
  heap :: "Client list"
  sessions :: "string \<rightharpoonup> Session"

definition NewSessionManager :: "Client list \<Rightarrow> world" where
  "NewSessionManager h = \<lparr>heap = h, sessions = Map.empty\<rparr>"

definition deref :: "Client list \<Rightarrow> nat \<Rightarrow> Client option" where
  "deref h p = (if p < length h then Some (h ! p) else None)"

definition CreateSession ::
  "world \<Rightarrow> string \<Rightarrow> string \<Rightarrow> string \<Rightarrow> int64 \<Rightarrow> (error + Session) \<times> world" where
  "CreateSession w sid name address now =
     (case sessions w sid of
        Some existing \<Rightarrow> (Inl (DuplicateSession sid), w)
      | None \<Rightarrow>
          (let session = \<lparr>sess_ID = sid, sess_Client = length (heap w), sess_Address = address,
                          sess_Name = name, sess_Created = now\<rparr>
           in (Inr session,
               w\<lparr>heap := heap w @ [NewClient], sessions := (sessions w)(sid \<mapsto> session)\<rparr>)))"

definition GetSession :: "world \<Rightarrow> string \<Rightarrow> error + Session" where
  "GetSession w sid =
     (case sessions w sid of
        None \<Rightarrow> Inl (SessionNotFound sid)
      | Some session \<Rightarrow> Inr session)"

definition RemoveSession :: "world \<Rightarrow> string \<Rightarrow> error option \<times> world" where
  "RemoveSession w sid =
     (case sessions w sid of
        None \<Rightarrow> (Some (SessionNotFound sid), w)
      | Some session \<Rightarrow>
          (case deref (heap w) (sess_Client session) of
             None \<Rightarrow> (Some NilPointerPanic, w)
           | Some c \<Rightarrow>
               if IsConnected c then
                 (case Client_Disconnect c of
                    (Some err, c') \<Rightarrow>
                      (Some (errorf ''failed to disconnect client'' err),
                       w\<lparr>heap := (heap w)[sess_Client session := c']\<rparr>)
                  | (None, c') \<Rightarrow>
                      (None, w\<lparr>heap := (heap w)[sess_Client session := c'],
                                sessions := (sessions w)(sid := None)\<rparr>))
               else (None, w\<lparr>sessions := (sessions w)(sid := None)\<rparr>)))"

section \<open>The connect tool\<close>

record ConnectParams =
  SessionID :: string
  Name :: string
  Address :: string
  Password :: string

text \<open>
  \<open>Connect\<close> of the tool layer, on the global session manager. The result of each
  \<open>RemoveSession\<close> is discarded (\<open>_ =\<close>); only a panic would still unwind.
\<close>

definition Connect ::
  "(string \<Rightarrow> net_conn option) \<Rightarrow> int64 \<Rightarrow> world \<Rightarrow> ConnectParams \<Rightarrow> (error + string) \<times> world" where
  "Connect dial now w params =
     (case CreateSession w (SessionID params) (Name params) (Address params) now of
        (Inl err, w1) \<Rightarrow> (Inl (errorf ''failed to create session'' err), w1)
      | (Inr session, w1) \<Rightarrow>
          (case deref (heap w1) (sess_Client session) of
             None \<Rightarrow> (Inl NilPointerPanic, w1)
           | Some c \<Rightarrow>
               (case Client_Connect dial c (Address params) of
                  (Some err, c1) \<Rightarrow>
                    (case RemoveSession (w1\<lparr>heap := (heap w1)[sess_Client session := c1]\<rparr>)
                            (SessionID params) of
                       (r, w2) \<Rightarrow>
                         if r = Some NilPointerPanic then (Inl NilPointerPanic, w2)
                         else (Inl (errorf ''failed to connect'' err), w2))
                | (None, c1) \<Rightarrow>
                    (case Client_Authenticate c1 (Password params) of
                       (Some err, c2) \<Rightarrow>
                         (case RemoveSession (w1\<lparr>heap := (heap w1)[sess_Client session := c2]\<rparr>)
                                 (SessionID params) of
                            (r, w2) \<Rightarrow>
                              if r = Some NilPointerPanic then (Inl NilPointerPanic, w2)
                              else (Inl (errorf ''failed to authenticate'' err), w2))
                     | (None, c2) \<Rightarrow>
                         (Inr (''Connected to RCON server at '' @ Address params
                                 @ '' (session: '' @ SessionID params @ '')''),
                          w1\<lparr>heap := (heap w1)[sess_Client session := c2]\<rparr>)))))"

section \<open>Reachable client states\<close>

text \<open>
  The states of a client that starts as \<open>NewClient\<close> and goes through any sequence of
  its four operations, whatever their arguments and outcomes. Between two operations the
  outside world may change the connection in any way (bytes arrive, the peer hangs up).
\<close>

inductive reachable :: "Client \<Rightarrow> bool" where
  r_new: "reachable NewClient"
| r_connect: "reachable c \<Longrightarrow> reachable (snd (Client_Connect dial c address))"
| r_authenticate: "reachable c \<Longrightarrow> reachable (snd (Client_Authenticate c password))"
| r_execute: "reachable c \<Longrightarrow> reachable (snd (Client_Execute c command))"
| r_disconnect: "reachable c \<Longrightarrow> reachable (snd (Client_Disconnect c))"
| r_world: "reachable c \<Longrightarrow> conn c = Some k \<Longrightarrow> reachable (c\<lparr>conn := Some k'\<rparr>)"


section \<open>A well-behaved connection\<close>

text \<open>
  The connection the tests of the repository use (\<open>newMockConn\<close>): it delivers the given
  bytes, records what is written and fails nowhere. \<open>failingClose\<close> is the same
  connection whose \<open>Close\<close> returns an error.
\<close>

definition newMockConn :: "byte list \<Rightarrow> net_conn" where
  "newMockConn readBuf =
     \<lparr>rx = readBuf, tx = [], read_deadline_err = False, read_err = False,
      write_deadline_err = False, write_err = False, close_err = False\<rparr>"

definition failingClose :: "byte list \<Rightarrow> net_conn" where
  "failingClose readBuf = (newMockConn readBuf)\<lparr>close_err := True\<rparr>"

section \<open>The transport handle\<close>

text \<open>
  The client holds its connection as a handle; the bytes that went through the connection
  are the connection's state, not the client's. Two values of the field \<open>conn\<close> are the
  same handle when both are nil, or both are the same connection up to the bytes read
  and written.
\<close>

definition same_handle :: "net_conn option \<Rightarrow> net_conn option \<Rightarrow> bool" where
  "same_handle a b =
     (map_option (\<lambda>k. k\<lparr>rx := [], tx := []\<rparr>) a = map_option (\<lambda>k. k\<lparr>rx := [], tx := []\<rparr>) b)"

section \<open>Well-formed clients\<close>

text \<open>
  What every reachable client satisfies: an authenticated client is connected, and a
  client is connected exactly when it holds a connection.
\<close>

definition client_ok :: "Client \<Rightarrow> bool" where
  "client_ok c = ((isAuthorized c \<longrightarrow> isConnected c) \<and> (isConnected c \<longleftrightarrow> conn c \<noteq> None))"

section \<open>The wire format\<close>

lemma get_put_le32: "get_le32 (put_le32 v @ rest) = Some v"
proof -
  have "(ucast (ucast v :: byte) OR push_bit 8 (ucast (ucast (drop_bit 8 v) :: byte))
        OR push_bit 16 (ucast (ucast (drop_bit 16 v) :: byte))
        OR push_bit 24 (ucast (ucast (drop_bit 24 v) :: byte)) :: int32) = v"
  proof (rule bit_word_eqI)
    fix n :: nat
    assume n: "n < LENGTH(32)"
    consider "n < 8" | "8 \<le> n" "n < 16" | "16 \<le> n" "n < 24" | "24 \<le> n" "n < 32"
      using n by fastforce
    then show "bit (ucast (ucast v :: byte) OR push_bit 8 (ucast (ucast (drop_bit 8 v) :: byte))
        OR push_bit 16 (ucast (ucast (drop_bit 16 v) :: byte))
        OR push_bit 24 (ucast (ucast (drop_bit 24 v) :: byte)) :: int32) n = bit v n"
      by cases (auto simp: bit_simps)
  qed
  then show ?thesis by (simp add: put_le32_def)
qed

lemma length_put_le32: "length (put_le32 v) = 4"
  by (simp add: put_le32_def)

lemma get_le32_take: "4 \<le> length bs \<Longrightarrow> get_le32 (take 4 bs) = get_le32 bs"
  by (cases bs rule: get_le32.cases) simp_all

lemma get_le32_Some_length: "get_le32 bs = Some n \<Longrightarrow> 4 \<le> length bs"
  by (cases bs rule: get_le32.cases) simp_all

lemma get_le32_length: "4 \<le> length bs \<Longrightarrow> \<exists>n. get_le32 bs = Some n"
  by (cases bs rule: get_le32.cases) simp_all

lemma string_of_bytes_of_string: "string_of_bytes (bytes_of_string s) = s"
  unfolding string_of_bytes_def bytes_of_string_def
  by (induction s) (simp_all add: unat_of_nat)

lemma length_bytes_of_string: "length (bytes_of_string s) = length s"
  by (simp add: bytes_of_string_def)

lemma sint_small: "sint (word_of_nat m :: int32) = int m" if "m < 2 ^ 31"
proof -
  have "sint (word_of_nat m :: int32) = signed_take_bit 31 (int m)"
    by (simp add: signed_of_nat)
  also have "\<dots> = int m"
    using that by (intro signed_take_bit_int_eq_self) simp_all
  finally show ?thesis .
qed

lemma ReadFull_append:
  "\<not> read_err k \<Longrightarrow> length a = n \<Longrightarrow> ReadFull (k\<lparr>rx := a @ b\<rparr>) n = (Inr a, k\<lparr>rx := b\<rparr>)"
  by (simp add: ReadFull_def)

lemma sendPacket_None:
  assumes "sendPacket c p = (None, c', p')"
  shows "\<exists>k. conn c = Some k \<and> \<not> write_deadline_err k \<and> \<not> write_err k
            \<and> c' = c\<lparr>conn := Some (k\<lparr>tx := tx k @ [packetBuffer (p\<lparr>Size := packetSize p\<rparr>)]\<rparr>)\<rparr>
            \<and> p' = p\<lparr>Size := packetSize p\<rparr>"
  using assms by (auto simp: sendPacket_def Let_def split: option.splits if_splits)

lemma readPacket_packetBuffer:
  assumes d: "conn d = Some kd" and nodl: "\<not> read_deadline_err kd" and nord: "\<not> read_err kd"
    and rxk: "rx kd = packetBuffer p @ rest"
    and szp: "Size p = packetSize p" and len: "length (Body p) + 10 \<le> 4096"
  shows "readPacket d =
     (Inr \<lparr>Size = 0, ID = ID p, Type = Type p, Body = Body p\<rparr>, d\<lparr>conn := Some (kd\<lparr>rx := rest\<rparr>)\<rparr>)"
proof -
  let ?n = "length (Body p)"
  let ?pb = "put_le32 (ID p) @ put_le32 (Type p) @ bytes_of_string (Body p) @ [0, 0]"
  have "sint (word_of_nat (?n + 10) :: int32) = int (?n + 10)"
    by (rule sint_small) (use len in simp)
  then have sz: "sint (packetSize p) = int (?n + 10)"
    by (simp only: packetSize_def length_bytes_of_string)
  have ok: "(packetSize p <s 10 \<or> maxPacketSize <s packetSize p) = False"
    using len by (simp add: word_sless_alt sz maxPacketSize_def)
  have lenpb: "length ?pb = ?n + 10"
    by (simp add: length_put_le32 length_bytes_of_string)
  have rx': "rx kd = put_le32 (packetSize p) @ ?pb @ rest"
    by (simp add: rxk packetBuffer_def szp)
  have "kd\<lparr>rx := put_le32 (packetSize p) @ ?pb @ rest\<rparr> = kd"
    by (simp only: rx' [symmetric]) simp
  moreover have "ReadFull (kd\<lparr>rx := put_le32 (packetSize p) @ ?pb @ rest\<rparr>) 4
      = (Inr (put_le32 (packetSize p)), kd\<lparr>rx := ?pb @ rest\<rparr>)"
    using nord length_put_le32 by (rule ReadFull_append)
  ultimately have r1: "ReadFull kd 4 = (Inr (put_le32 (packetSize p)), kd\<lparr>rx := ?pb @ rest\<rparr>)"
    by simp
  have r2: "ReadFull (kd\<lparr>rx := ?pb @ rest\<rparr>) (?n + 10) = (Inr ?pb, kd\<lparr>rx := rest\<rparr>)"
    using nord lenpb by (rule ReadFull_append)
  have g0: "get_le32 (put_le32 (packetSize p)) = Some (packetSize p)"
    using get_put_le32 [of "packetSize p" "[]"] by simp
  have g1: "get_le32 ?pb = Some (ID p)"
    by (rule get_put_le32)
  have g2: "get_le32 (drop 4 ?pb) = Some (Type p)"
    by (simp add: length_put_le32 get_put_le32)
  have b: "take (length ?pb - 2 - 8) (drop 8 ?pb) = bytes_of_string (Body p)"
    by (simp add: length_put_le32 length_bytes_of_string)
  have n: "nat (sint (packetSize p)) = ?n + 10"
    by (simp add: sz)
  have nodl': "read_deadline_err kd = False"
    using nodl by simp
  show ?thesis
    by (simp only: readPacket_def d option.case nodl' if_False r1 prod.case sum.case g0 ok n r2
          g1 g2 b string_of_bytes_of_string zeroPacket_def) simp
qed

text \<open>
  C5. Packet round trip: a packet with id \<open>i\<close>, type \<open>t\<close> and body \<open>b\<close>, where \<open>b\<close> has no
  null byte and \<open>byteLength(b) + 10 \<le> 4096\<close>, is sent with \<open>sendPacket\<close>; when the bytes
  it wrote are what a connection delivers, \<open>readPacket\<close> returns a packet with id \<open>i\<close>,
  type \<open>t\<close> and body \<open>b\<close>. The empty body is included. (The proof does not use the
  hypothesis on null bytes: the body is cut by its length, not at a terminator.)
\<close>

theorem packet_roundtrip:
  assumes "0 \<notin> set (bytes_of_string b)" and "length (bytes_of_string b) + 10 \<le> 4096"
    and "sendPacket c \<lparr>Size = s, ID = i, Type = t, Body = b\<rparr> = (None, c', p')"
    and "conn c' = Some k'"
    and "conn d = Some kd" and "\<not> read_deadline_err kd" and "\<not> read_err kd"
    and "rx kd = last (tx k')"
  shows "\<exists>r. fst (readPacket d) = Inr r \<and> ID r = i \<and> Type r = t \<and> Body r = b"
proof -
  let ?p = "\<lparr>Size = s, ID = i, Type = t, Body = b\<rparr>"
  let ?q = "?p\<lparr>Size := packetSize ?p\<rparr>"
  from sendPacket_None [OF assms(3)] assms(4) have "last (tx k') = packetBuffer ?q"
    by auto
  then have "rx kd = packetBuffer ?q @ []"
    using assms(8) by simp
  moreover have "Size ?q = packetSize ?q"
    by (simp add: packetSize_def)
  moreover have "length (Body ?q) + 10 \<le> 4096"
    using assms(2) by (simp add: length_bytes_of_string)
  ultimately have "readPacket d =
      (Inr \<lparr>Size = 0, ID = ID ?q, Type = Type ?q, Body = Body ?q\<rparr>, d\<lparr>conn := Some (kd\<lparr>rx := []\<rparr>)\<rparr>)"
    using assms(5,6,7) by (intro readPacket_packetBuffer)
  then show ?thesis by simp
qed

text \<open>The round trip on the command packet \<open>status\<close> with id 7, and on a packet with an
  empty body and id \<open>-1\<close>.\<close>

theorem packet_roundtrip_witness:
  "0 \<notin> set (bytes_of_string ''status'') \<and> length (bytes_of_string ''status'') + 10 \<le> 4096 \<and>
   (\<exists>r. fst (readPacket (NewClient\<lparr>conn := Some (newMockConn
            [16, 0, 0, 0, 7, 0, 0, 0, 2, 0, 0, 0, 115, 116, 97, 116, 117, 115, 0, 0])\<rparr>)) = Inr r
        \<and> ID r = 7 \<and> Type r = 2 \<and> Body r = ''status'')
   \<and> 0 \<notin> set (bytes_of_string []) \<and> length (bytes_of_string []) + 10 \<le> 4096 \<and>
   (\<exists>r. fst (readPacket (NewClient\<lparr>conn := Some (newMockConn
            [10, 0, 0, 0, 255, 255, 255, 255, 0, 0, 0, 0, 0, 0])\<rparr>)) = Inr r
        \<and> ID r = - 1 \<and> Type r = 0 \<and> Body r = [])"
proof -
  let ?c = "NewClient\<lparr>conn := Some (newMockConn [])\<rparr>"
  let ?k' = "(newMockConn [])\<lparr>tx := [[16, 0, 0, 0, 7, 0, 0, 0, 2, 0, 0, 0, 115, 116, 97, 116, 117, 115, 0, 0]]\<rparr>"
  let ?kd = "newMockConn [16, 0, 0, 0, 7, 0, 0, 0, 2, 0, 0, 0, 115, 116, 97, 116, 117, 115, 0, 0]"
  have 1: "0 \<notin> set (bytes_of_string ''status'')"
    by (simp add: bytes_of_string_def)
  have 2: "length (bytes_of_string ''status'') + 10 \<le> 4096"
    by (simp add: bytes_of_string_def)
  have 3: "sendPacket ?c \<lparr>Size = 0, ID = 7, Type = 2, Body = ''status''\<rparr>
      = (None, ?c\<lparr>conn := Some ?k'\<rparr>, \<lparr>Size = 16, ID = 7, Type = 2, Body = ''status''\<rparr>)"
    by (simp add: sendPacket_def NewClient_def newMockConn_def packetSize_def packetBuffer_def
        put_le32_def bytes_of_string_def)
  have a: "\<exists>r. fst (readPacket (NewClient\<lparr>conn := Some ?kd\<rparr>)) = Inr r
        \<and> ID r = 7 \<and> Type r = 2 \<and> Body r = ''status''"
    by (rule packet_roundtrip [OF 1 2 3, where k' = ?k' and kd = ?kd])
      (simp_all add: newMockConn_def)
  let ?j' = "(newMockConn [])\<lparr>tx := [[10, 0, 0, 0, 255, 255, 255, 255, 0, 0, 0, 0, 0, 0]]\<rparr>"
  let ?jd = "newMockConn [10, 0, 0, 0, 255, 255, 255, 255, 0, 0, 0, 0, 0, 0]"
  have 4: "0 \<notin> set (bytes_of_string [])"
    by (simp add: bytes_of_string_def)
  have 5: "length (bytes_of_string []) + 10 \<le> 4096"
    by (simp add: bytes_of_string_def)
  have 6: "sendPacket ?c \<lparr>Size = 0, ID = - 1, Type = 0, Body = []\<rparr>
      = (None, ?c\<lparr>conn := Some ?j'\<rparr>, \<lparr>Size = 10, ID = - 1, Type = 0, Body = []\<rparr>)"
    by code_simp
  have b: "\<exists>r. fst (readPacket (NewClient\<lparr>conn := Some ?jd\<rparr>)) = Inr r
        \<and> ID r = - 1 \<and> Type r = 0 \<and> Body r = []"
    by (rule packet_roundtrip [OF 4 5 6, where k' = ?j' and kd = ?jd])
      (simp_all add: newMockConn_def)
  from 1 2 a 4 5 b show ?thesis
    by blast
qed

lemma get_le32_drop4: "8 \<le> length bs \<Longrightarrow> \<exists>n. get_le32 (drop 4 bs) = Some n"
  by (rule get_le32_length) simp

text \<open>
  C6. Size bounds of \<open>readPacket\<close>: it fails with \<open>InvalidPacketSize n\<close> exactly when the
  first four bytes of the stream could be read and decode, little-endian, to a signed
  length \<open>n\<close> with \<open>n < 10\<close> or \<open>n > 4096\<close>. A length from 10 to 4096 is accepted: when
  that many further bytes arrive, a packet is returned. The instances for the lengths 9,
  4097, 10 and 4096 follow the theorem.
\<close>

theorem readPacket_size_bounds:
  "(fst (readPacket c) = Inl (InvalidPacketSize n) \<longleftrightarrow>
     (\<exists>k. conn c = Some k \<and> \<not> read_deadline_err k \<and> \<not> read_err k
          \<and> get_le32 (rx k) = Some n \<and> (n <s 10 \<or> 4096 <s n)))
   \<and> (\<forall>k. conn c = Some k \<and> \<not> read_deadline_err k \<and> \<not> read_err k
          \<and> get_le32 (rx k) = Some n \<and> \<not> (n <s 10 \<or> 4096 <s n)
          \<and> 4 + nat (sint n) \<le> length (rx k)
        \<longrightarrow> (\<exists>r. fst (readPacket c) = Inr r))"
proof (intro conjI allI impI iffI)
  assume "fst (readPacket c) = Inl (InvalidPacketSize n)"
  then show "\<exists>k. conn c = Some k \<and> \<not> read_deadline_err k \<and> \<not> read_err k
          \<and> get_le32 (rx k) = Some n \<and> (n <s 10 \<or> 4096 <s n)"
    by (auto simp: readPacket_def ReadFull_def get_le32_take maxPacketSize_def
        split: option.splits if_splits)
next
  assume "\<exists>k. conn c = Some k \<and> \<not> read_deadline_err k \<and> \<not> read_err k
          \<and> get_le32 (rx k) = Some n \<and> (n <s 10 \<or> 4096 <s n)"
  then obtain k where k: "conn c = Some k" "\<not> read_deadline_err k" "\<not> read_err k"
    "get_le32 (rx k) = Some n" "n <s 10 \<or> 4096 <s n"
    by blast
  from k(4) have "4 \<le> length (rx k)"
    by (rule get_le32_Some_length)
  with k show "fst (readPacket c) = Inl (InvalidPacketSize n)"
    by (auto simp: readPacket_def ReadFull_def get_le32_take maxPacketSize_def)
next
  fix k
  assume a: "conn c = Some k \<and> \<not> read_deadline_err k \<and> \<not> read_err k
          \<and> get_le32 (rx k) = Some n \<and> \<not> (n <s 10 \<or> 4096 <s n)
          \<and> 4 + nat (sint n) \<le> length (rx k)"
  then have "\<not> sint n < 10"
    by (simp add: word_sless_alt)
  then have ten: "10 \<le> nat (sint n)"
    by linarith
  let ?buf = "take (nat (sint n)) (drop 4 (rx k))"
  from a have l: "4 + nat (sint n) \<le> length (rx k)"
    by simp
  then have len: "length ?buf = nat (sint n)"
    by (simp add: min_absorb2)
  have l8: "8 \<le> length ?buf"
    using len ten by linarith
  then have "4 \<le> length ?buf"
    by linarith
  then obtain i where i: "get_le32 ?buf = Some i"
    by (blast dest: get_le32_length)
  obtain t where t: "get_le32 (drop 4 ?buf) = Some t"
    using l8 by (blast dest: get_le32_drop4)
  from l have l4: "4 \<le> length (rx k)" and nl: "\<not> length (rx k) - 4 < nat (sint n)"
    by linarith+
  show "\<exists>r. fst (readPacket c) = Inr r"
    using a i t l4 nl
    by (simp add: readPacket_def ReadFull_def get_le32_take maxPacketSize_def)
qed

text \<open>Declared lengths 9, 4097 and \<open>-1\<close> are rejected, 10 and 4096 are decoded.\<close>

theorem readPacket_size_bounds_witness:
  "fst (readPacket (NewClient\<lparr>conn := Some (newMockConn [9, 0, 0, 0])\<rparr>)) = Inl (InvalidPacketSize 9)
   \<and> fst (readPacket (NewClient\<lparr>conn := Some (newMockConn [1, 16, 0, 0])\<rparr>))
       = Inl (InvalidPacketSize 4097)
   \<and> fst (readPacket (NewClient\<lparr>conn := Some (newMockConn [255, 255, 255, 255])\<rparr>))
       = Inl (InvalidPacketSize (- 1))
   \<and> (\<exists>r. fst (readPacket (NewClient\<lparr>conn := Some (newMockConn ([10, 0, 0, 0] @ replicate 10 0))\<rparr>))
       = Inr r)
   \<and> (\<exists>r. fst (readPacket (NewClient\<lparr>conn := Some (newMockConn ([0, 16, 0, 0] @ replicate 4096 0))\<rparr>))
       = Inr r)"
proof (intro conjI)
  show "fst (readPacket (NewClient\<lparr>conn := Some (newMockConn [9, 0, 0, 0])\<rparr>)) = Inl (InvalidPacketSize 9)"
    by (rule readPacket_size_bounds [THEN conjunct1, THEN iffD2])
      (simp add: newMockConn_def word_sless_alt)
  show "fst (readPacket (NewClient\<lparr>conn := Some (newMockConn [1, 16, 0, 0])\<rparr>))
       = Inl (InvalidPacketSize 4097)"
    by (rule readPacket_size_bounds [THEN conjunct1, THEN iffD2])
      (simp add: newMockConn_def word_sless_alt)
  show "fst (readPacket (NewClient\<lparr>conn := Some (newMockConn [255, 255, 255, 255])\<rparr>))
       = Inl (InvalidPacketSize (- 1))"
    by (rule readPacket_size_bounds [THEN conjunct1, THEN iffD2])
      (simp add: newMockConn_def word_sless_alt)
  show "\<exists>r. fst (readPacket (NewClient\<lparr>conn := Some (newMockConn ([10, 0, 0, 0] @ replicate 10 0))\<rparr>))
       = Inr r"
    by (rule readPacket_size_bounds [of _ 10, THEN conjunct2, rule_format,
          where k = "newMockConn ([10, 0, 0, 0] @ replicate 10 0)"])
      (simp add: newMockConn_def word_sless_alt)
  show "\<exists>r. fst (readPacket (NewClient\<lparr>conn := Some (newMockConn ([0, 16, 0, 0] @ replicate 4096 0))\<rparr>))
       = Inr r"
    by (rule readPacket_size_bounds [of _ 4096, THEN conjunct2, rule_format,
          where k = "newMockConn ([0, 16, 0, 0] @ replicate 4096 0)"])
      (simp add: newMockConn_def word_sless_alt)
qed

section \<open>The client operations\<close>

lemma readPacket_frame:
  assumes "readPacket c = (r, c')"
  shows "requestID c' = requestID c \<and> isConnected c' = isConnected c
       \<and> isAuthorized c' = isAuthorized c \<and> same_handle (conn c) (conn c')"
  using assms
  by (auto simp: readPacket_def ReadFull_def same_handle_def
      split: option.splits if_splits sum.splits)

lemma sendPacket_frame:
  assumes "sendPacket c p = (r, c', p')"
  shows "requestID c' = requestID c \<and> isConnected c' = isConnected c
       \<and> isAuthorized c' = isAuthorized c \<and> same_handle (conn c) (conn c')
       \<and> ID p' = ID p"
  using assms
  by (auto simp: sendPacket_def Let_def same_handle_def split: option.splits if_splits)

lemma readPacket_Inr:
  assumes "readPacket c = (Inr r, c')"
  shows "\<exists>k n. conn c = Some k \<and> get_le32 (rx k) = Some n
           \<and> c' = c\<lparr>conn := Some (k\<lparr>rx := drop (nat (sint n) + 4) (rx k)\<rparr>)\<rparr>"
  using assms
  by (auto simp: readPacket_def ReadFull_def get_le32_take
      split: option.splits if_splits sum.splits)

lemma Execute_preserves:
  "case Client_Execute c command of
     (r, c') \<Rightarrow>
       isConnected c' = isConnected c \<and> isAuthorized c' = isAuthorized c
       \<and> same_handle (conn c) (conn c')
       \<and> requestID c' = (if isConnected c \<and> isAuthorized c then requestID c + 1 else requestID c)"
proof (cases "isConnected c \<and> isAuthorized c")
  case False
  then show ?thesis
    by (auto simp: Client_Execute_def same_handle_def)
next
  case True
  let ?c1 = "c\<lparr>requestID := requestID c + 1\<rparr>"
  let ?p = "\<lparr>Size = 0, ID = requestID c, Type = PacketTypeCommand, Body = command\<rparr>"
  obtain e c2 p' where s: "sendPacket ?c1 ?p = (e, c2, p')"
    by (metis prod_cases3)
  note f2 = sendPacket_frame [OF s]
  show ?thesis
  proof (cases e)
    case (Some err)
    with True s f2 show ?thesis
      by (simp add: Client_Execute_def getNextRequestID_def)
  next
    case None
    obtain r c3 where rd: "readPacket c2 = (r, c3)"
      by (metis surj_pair)
    note f3 = readPacket_frame [OF rd]
    from f2 f3 have sh: "same_handle (conn c) (conn c3)"
      by (simp add: same_handle_def)
    with True s None rd f2 f3 show ?thesis
      by (cases r) (simp_all add: Client_Execute_def getNextRequestID_def)
  qed
qed

text \<open>
  C10. Frame property of \<open>Execute\<close>: on every client and command, whatever branch is
  taken, the connected flag, the authenticated flag and the transport handle are those
  of before; the request-id counter has advanced by exactly one when both precondition
  checks passed (also when the exchange then failed), and is unchanged otherwise.
\<close>

theorem Execute_frame:
  "case Client_Execute c command of
     (r, c') \<Rightarrow>
       isConnected c' = isConnected c \<and> isAuthorized c' = isAuthorized c
       \<and> same_handle (conn c) (conn c')
       \<and> requestID c' = (if isConnected c \<and> isAuthorized c then requestID c + 1 else requestID c)"
  by (rule Execute_preserves)

lemma Execute_unfold:
  assumes "isConnected c" "isAuthorized c" "conn c = Some k"
    "\<not> write_deadline_err k" "\<not> write_err k"
  shows "Client_Execute c command =
     (case readPacket (c\<lparr>requestID := requestID c + 1,
             conn := Some (k\<lparr>tx := tx k @ [packetBuffer
               \<lparr>Size = word_of_nat (length (bytes_of_string command) + 10), ID = requestID c,
                Type = PacketTypeCommand, Body = command\<rparr>]\<rparr>)\<rparr>) of
        (Inl err, c') \<Rightarrow> (Inl (errorf ''failed to read response'' err), c')
      | (Inr response, c') \<Rightarrow>
          (if ID response \<noteq> requestID c then Inl ResponseMismatch else Inr (Body response), c'))"
  using assms
  by (simp add: Client_Execute_def getNextRequestID_def sendPacket_def Let_def packetSize_def
      split: prod.splits sum.splits)

lemmas eval_defs = readPacket_def ReadFull_def newMockConn_def NewClient_def zeroPacket_def
  maxPacketSize_def string_of_bytes_def bytes_of_string_def packetBuffer_def put_le32_def
  word_sless_alt PacketTypeCommand_def PacketTypeAuth_def char_of_def bit_Suc_0_iff

text \<open>
  C4. \<open>Execute\<close>: with the connected flag false it fails with \<open>NotConnected\<close>; connected
  but not authenticated, with \<open>NotAuthenticated\<close>; the client is untouched in both cases.
  Otherwise, on a connection that takes the write, it makes one round trip: one
  \<open>Command\<close> packet with the next request id and the command as body is written, one
  packet is read. When that read returns a response, the result is \<open>ResponseMismatch\<close>
  if the response's id is not exactly the id sent, and else the response's body as it
  is; the connection has then gained the one packet written and lost the one packet read.
\<close>

theorem Execute_spec:
  "(\<not> isConnected c \<longrightarrow> Client_Execute c command = (Inl NotConnected, c))
   \<and> (isConnected c \<and> \<not> isAuthorized c \<longrightarrow> Client_Execute c command = (Inl NotAuthenticated, c))
   \<and> (\<forall>k response c'.
         isConnected c \<and> isAuthorized c \<and> conn c = Some k
         \<and> \<not> write_deadline_err k \<and> \<not> write_err k
         \<and> readPacket (c\<lparr>requestID := requestID c + 1,
               conn := Some (k\<lparr>tx := tx k @ [packetBuffer
                 \<lparr>Size = word_of_nat (length (bytes_of_string command) + 10), ID = requestID c,
                  Type = PacketTypeCommand, Body = command\<rparr>]\<rparr>)\<rparr>) = (Inr response, c')
       \<longrightarrow> Client_Execute c command =
             (if ID response = requestID c then Inr (Body response) else Inl ResponseMismatch, c')
           \<and> (\<exists>n. get_le32 (rx k) = Some n
                \<and> conn c' = Some (k\<lparr>tx := tx k @ [packetBuffer
                     \<lparr>Size = word_of_nat (length (bytes_of_string command) + 10), ID = requestID c,
                      Type = PacketTypeCommand, Body = command\<rparr>],
                     rx := drop (nat (sint n) + 4) (rx k)\<rparr>)))"
proof (intro conjI allI impI)
  assume "\<not> isConnected c"
  then show "Client_Execute c command = (Inl NotConnected, c)"
    by (simp add: Client_Execute_def)
next
  assume "isConnected c \<and> \<not> isAuthorized c"
  then show "Client_Execute c command = (Inl NotAuthenticated, c)"
    by (simp add: Client_Execute_def)
next
  fix k response c'
  let ?sent = "c\<lparr>requestID := requestID c + 1,
               conn := Some (k\<lparr>tx := tx k @ [packetBuffer
                 \<lparr>Size = word_of_nat (length (bytes_of_string command) + 10), ID = requestID c,
                  Type = PacketTypeCommand, Body = command\<rparr>]\<rparr>)\<rparr>"
  assume a: "isConnected c \<and> isAuthorized c \<and> conn c = Some k
         \<and> \<not> write_deadline_err k \<and> \<not> write_err k
         \<and> readPacket ?sent = (Inr response, c')"
  then have rd: "readPacket ?sent = (Inr response, c')"
    by simp
  from a show "Client_Execute c command =
             (if ID response = requestID c then Inr (Body response) else Inl ResponseMismatch, c')"
    by (simp add: Execute_unfold [of c k command])
  from readPacket_Inr [OF rd]
  show "\<exists>n. get_le32 (rx k) = Some n
                \<and> conn c' = Some (k\<lparr>tx := tx k @ [packetBuffer
                     \<lparr>Size = word_of_nat (length (bytes_of_string command) + 10), ID = requestID c,
                      Type = PacketTypeCommand, Body = command\<rparr>],
                     rx := drop (nat (sint n) + 4) (rx k)\<rparr>)"
    by auto
qed

text \<open>The three outcomes on concrete clients; the body returned has two lines and is not trimmed.\<close>

theorem Execute_spec_witness:
  "fst (Client_Execute NewClient ''status'') = Inl NotConnected
   \<and> fst (Client_Execute (NewClient\<lparr>conn := Some (newMockConn []), isConnected := True\<rparr>) ''status'')
       = Inl NotAuthenticated
   \<and> fst (Client_Execute
        \<lparr>conn = Some (newMockConn [14, 0, 0, 0, 2, 0, 0, 0, 0, 0, 0, 0, 85, 112, 10, 50, 0, 0]),
         requestID = 2, isConnected = True, isAuthorized = True\<rparr> ''status'')
       = Inr ''Up\<newline>2''
   \<and> fst (Client_Execute
        \<lparr>conn = Some (newMockConn [14, 0, 0, 0, 2, 0, 0, 0, 0, 0, 0, 0, 85, 112, 10, 50, 0, 0]),
         requestID = 5, isConnected = True, isAuthorized = True\<rparr> ''status'')
       = Inl ResponseMismatch"
proof (intro conjI)
  show "fst (Client_Execute NewClient ''status'') = Inl NotConnected"
    using Execute_spec [of NewClient "''status''"] by (simp add: NewClient_def)
  show "fst (Client_Execute (NewClient\<lparr>conn := Some (newMockConn []), isConnected := True\<rparr>) ''status'')
       = Inl NotAuthenticated"
    using Execute_spec [of "NewClient\<lparr>conn := Some (newMockConn []), isConnected := True\<rparr>" "''status''"]
    by (simp add: NewClient_def)
next
  let ?k = "newMockConn [14, 0, 0, 0, 2, 0, 0, 0, 0, 0, 0, 0, 85, 112, 10, 50, 0, 0]"
  let ?r = "\<lparr>Size = 0, ID = 2, Type = 0, Body = ''Up\<newline>2''\<rparr>"
  let ?sent = "\<lambda>c. c\<lparr>requestID := requestID c + 1,
               conn := Some (?k\<lparr>tx := tx ?k @ [packetBuffer
                 \<lparr>Size = word_of_nat (length (bytes_of_string ''status'') + 10), ID = requestID c,
                  Type = PacketTypeCommand, Body = ''status''\<rparr>]\<rparr>)\<rparr>"
  have rd: "readPacket (?sent c) = (Inr ?r, snd (readPacket (?sent c)))" for c
    by (simp add: eval_defs)
  let ?c = "\<lparr>conn = Some ?k, requestID = 2, isConnected = True, isAuthorized = True\<rparr>"
  have "Client_Execute ?c ''status'' =
      (if ID ?r = requestID ?c then Inr (Body ?r) else Inl ResponseMismatch, snd (readPacket (?sent ?c)))"
    by (rule Execute_spec [THEN conjunct2, THEN conjunct2, rule_format, where k = ?k, THEN conjunct1])
      (intro conjI rd; simp add: newMockConn_def)
  then show "fst (Client_Execute ?c ''status'') = Inr ''Up\<newline>2''"
    by simp
  let ?d = "\<lparr>conn = Some ?k, requestID = 5, isConnected = True, isAuthorized = True\<rparr>"
  have "Client_Execute ?d ''status'' =
      (if ID ?r = requestID ?d then Inr (Body ?r) else Inl ResponseMismatch, snd (readPacket (?sent ?d)))"
    by (rule Execute_spec [THEN conjunct2, THEN conjunct2, rule_format, where k = ?k, THEN conjunct1])
      (intro conjI rd; simp add: newMockConn_def)
  then show "fst (Client_Execute ?d ''status'') = Inl ResponseMismatch"
    by simp
qed

lemma Authenticate_unfold:
  assumes "isConnected c" "\<not> isAuthorized c" "conn c = Some k"
    "\<not> write_deadline_err k" "\<not> write_err k"
  shows "Client_Authenticate c password =
     (case readPacket (c\<lparr>requestID := requestID c + 1,
             conn := Some (k\<lparr>tx := tx k @ [packetBuffer
               \<lparr>Size = word_of_nat (length (bytes_of_string password) + 10), ID = requestID c,
                Type = PacketTypeAuth, Body = password\<rparr>]\<rparr>)\<rparr>) of
        (Inl err, c') \<Rightarrow> (Some (errorf ''failed to read auth response'' err), c')
      | (Inr response, c') \<Rightarrow>
          if ID response = - 1 then (Some AuthenticationFailed, c')
          else if ID response \<noteq> requestID c then (Some UnexpectedResponse, c')
          else (None, c'\<lparr>isAuthorized := True\<rparr>))"
  using assms
  by (simp add: Client_Authenticate_def getNextRequestID_def sendPacket_def Let_def packetSize_def
      split: prod.splits sum.splits)

lemma Authenticate_failure_frame:
  assumes "Client_Authenticate c password = (Some e, c')"
  shows "isAuthorized c' = isAuthorized c \<and> isConnected c' = isConnected c"
proof (cases "isConnected c \<and> \<not> isAuthorized c")
  case False
  with assms show ?thesis
    by (auto simp: Client_Authenticate_def split: if_splits)
next
  case True
  let ?c1 = "c\<lparr>requestID := requestID c + 1\<rparr>"
  let ?p = "\<lparr>Size = 0, ID = requestID c, Type = PacketTypeAuth, Body = password\<rparr>"
  obtain se c2 p' where s: "sendPacket ?c1 ?p = (se, c2, p')"
    by (metis prod_cases3)
  note f2 = sendPacket_frame [OF s]
  show ?thesis
  proof (cases se)
    case (Some err)
    with True s f2 assms show ?thesis
      by (auto simp: Client_Authenticate_def getNextRequestID_def)
  next
    case None
    obtain r c3 where rd: "readPacket c2 = (r, c3)"
      by (metis surj_pair)
    note f3 = readPacket_frame [OF rd]
    from True s None rd f2 f3 assms show ?thesis
      by (cases r) (auto simp: Client_Authenticate_def getNextRequestID_def split: if_splits)
  qed
qed

text \<open>
  C3. \<open>Authenticate\<close> on a connected, not yet authenticated client whose connection takes
  the write: one \<open>Auth\<close> packet with the next request id and the password as body is
  written, and one packet is read. When that read returns a response: if its id is \<open>-1\<close>
  the result is \<open>AuthenticationFailed\<close>, whatever request id was sent; else if its id is
  not the id sent, \<open>UnexpectedResponse\<close>; else the authenticated flag is set and the call
  succeeds; the connection has then gained the one packet written and lost the one packet
  read. On every failure (of any kind) the authenticated flag stays false.
\<close>

theorem Authenticate_spec:
  "(\<forall>k response c'.
       isConnected c \<and> \<not> isAuthorized c \<and> conn c = Some k
       \<and> \<not> write_deadline_err k \<and> \<not> write_err k
       \<and> readPacket (c\<lparr>requestID := requestID c + 1,
             conn := Some (k\<lparr>tx := tx k @ [packetBuffer
               \<lparr>Size = word_of_nat (length (bytes_of_string password) + 10), ID = requestID c,
                Type = PacketTypeAuth, Body = password\<rparr>]\<rparr>)\<rparr>) = (Inr response, c')
     \<longrightarrow> Client_Authenticate c password =
           (if ID response = - 1 then (Some AuthenticationFailed, c')
            else if ID response \<noteq> requestID c then (Some UnexpectedResponse, c')
            else (None, c'\<lparr>isAuthorized := True\<rparr>))
         \<and> (\<exists>n. get_le32 (rx k) = Some n
              \<and> conn c' = Some (k\<lparr>tx := tx k @ [packetBuffer
                   \<lparr>Size = word_of_nat (length (bytes_of_string password) + 10), ID = requestID c,
                    Type = PacketTypeAuth, Body = password\<rparr>],
                   rx := drop (nat (sint n) + 4) (rx k)\<rparr>)))
   \<and> (\<forall>e c'. \<not> isAuthorized c \<and> Client_Authenticate c password = (Some e, c')
         \<longrightarrow> \<not> isAuthorized c')"
proof (intro conjI allI impI)
  fix k response c'
  assume a: "isConnected c \<and> \<not> isAuthorized c \<and> conn c = Some k
       \<and> \<not> write_deadline_err k \<and> \<not> write_err k
       \<and> readPacket (c\<lparr>requestID := requestID c + 1,
             conn := Some (k\<lparr>tx := tx k @ [packetBuffer
               \<lparr>Size = word_of_nat (length (bytes_of_string password) + 10), ID = requestID c,
                Type = PacketTypeAuth, Body = password\<rparr>]\<rparr>)\<rparr>) = (Inr response, c')"
  then show "Client_Authenticate c password =
           (if ID response = - 1 then (Some AuthenticationFailed, c')
            else if ID response \<noteq> requestID c then (Some UnexpectedResponse, c')
            else (None, c'\<lparr>isAuthorized := True\<rparr>))"
    by (simp add: Authenticate_unfold [of c k password])
  from a have "readPacket (c\<lparr>requestID := requestID c + 1,
             conn := Some (k\<lparr>tx := tx k @ [packetBuffer
               \<lparr>Size = word_of_nat (length (bytes_of_string password) + 10), ID = requestID c,
                Type = PacketTypeAuth, Body = password\<rparr>]\<rparr>)\<rparr>) = (Inr response, c')"
    by simp
  from readPacket_Inr [OF this]
  show "\<exists>n. get_le32 (rx k) = Some n
              \<and> conn c' = Some (k\<lparr>tx := tx k @ [packetBuffer
                   \<lparr>Size = word_of_nat (length (bytes_of_string password) + 10), ID = requestID c,
                    Type = PacketTypeAuth, Body = password\<rparr>],
                   rx := drop (nat (sint n) + 4) (rx k)\<rparr>)"
    by auto
next
  fix e c'
  assume "\<not> isAuthorized c \<and> Client_Authenticate c password = (Some e, c')"
  then show "\<not> isAuthorized c'"
    using Authenticate_failure_frame [of c password e c'] by simp
qed

text \<open>
  A rejected password, a rejection when the request id itself is \<open>-1\<close>, a foreign
  response id, and an accepted password.
\<close>

theorem Authenticate_spec_witness:
  "Client_Authenticate
      (NewClient\<lparr>conn := Some (newMockConn [10, 0, 0, 0, 255, 255, 255, 255, 2, 0, 0, 0, 0, 0]),
                 isConnected := True\<rparr>) ''secret''
     = (Some AuthenticationFailed,
        \<lparr>conn = Some ((newMockConn [])\<lparr>tx := [[16, 0, 0, 0, 1, 0, 0, 0, 3, 0, 0, 0,
                  115, 101, 99, 114, 101, 116, 0, 0]]\<rparr>),
         requestID = 2, isConnected = True, isAuthorized = False\<rparr>)
   \<and> fst (Client_Authenticate
      (NewClient\<lparr>conn := Some (newMockConn [10, 0, 0, 0, 255, 255, 255, 255, 2, 0, 0, 0, 0, 0]),
                 requestID := - 1, isConnected := True\<rparr>) ''secret'')
     = Some AuthenticationFailed
   \<and> fst (Client_Authenticate
      (NewClient\<lparr>conn := Some (newMockConn [10, 0, 0, 0, 9, 0, 0, 0, 2, 0, 0, 0, 0, 0]),
                 isConnected := True\<rparr>) ''secret'')
     = Some UnexpectedResponse
   \<and> \<not> isAuthorized (snd (Client_Authenticate
      (NewClient\<lparr>conn := Some (newMockConn [10, 0, 0, 0, 9, 0, 0, 0, 2, 0, 0, 0, 0, 0]),
                 isConnected := True\<rparr>) ''secret''))
   \<and> Client_Authenticate
      (NewClient\<lparr>conn := Some (newMockConn [10, 0, 0, 0, 1, 0, 0, 0, 2, 0, 0, 0, 0, 0]),
                 isConnected := True\<rparr>) ''secret''
     = (None,
        \<lparr>conn = Some ((newMockConn [])\<lparr>tx := [[16, 0, 0, 0, 1, 0, 0, 0, 3, 0, 0, 0,
                  115, 101, 99, 114, 101, 116, 0, 0]]\<rparr>),
         requestID = 2, isConnected = True, isAuthorized = True\<rparr>)"
proof -
  let ?sent = "\<lambda>c k. c\<lparr>requestID := requestID c + 1,
             conn := Some (k\<lparr>tx := tx k @ [packetBuffer
               \<lparr>Size = word_of_nat (length (bytes_of_string ''secret'') + 10), ID = requestID c,
                Type = PacketTypeAuth, Body = ''secret''\<rparr>]\<rparr>)\<rparr>"
  let ?after = "\<lambda>rid. \<lparr>conn = Some ((newMockConn [])\<lparr>tx := [[16, 0, 0, 0] @ put_le32 (rid - 1)
                  @ [3, 0, 0, 0, 115, 101, 99, 114, 101, 116, 0, 0]]\<rparr>),
         requestID = rid, isConnected = True, isAuthorized = False\<rparr>"
  let ?resp = "\<lambda>i. \<lparr>Size = 0, ID = i, Type = 2, Body = []\<rparr>"
  let ?k1 = "newMockConn [10, 0, 0, 0, 255, 255, 255, 255, 2, 0, 0, 0, 0, 0]"
  let ?k2 = "newMockConn [10, 0, 0, 0, 9, 0, 0, 0, 2, 0, 0, 0, 0, 0]"
  let ?k3 = "newMockConn [10, 0, 0, 0, 1, 0, 0, 0, 2, 0, 0, 0, 0, 0]"
  let ?c1 = "NewClient\<lparr>conn := Some ?k1, isConnected := True\<rparr>"
  let ?c1' = "NewClient\<lparr>conn := Some ?k1, requestID := - 1, isConnected := True\<rparr>"
  let ?c2 = "NewClient\<lparr>conn := Some ?k2, isConnected := True\<rparr>"
  let ?c3 = "NewClient\<lparr>conn := Some ?k3, isConnected := True\<rparr>"
  have rd1: "readPacket (?sent ?c1 ?k1) = (Inr (?resp (- 1)), ?after 2)"
    by (simp add: eval_defs)
  have rd1': "readPacket (?sent ?c1' ?k1) = (Inr (?resp (- 1)), ?after 0)"
    by (simp add: eval_defs)
  have rd2: "readPacket (?sent ?c2 ?k2) = (Inr (?resp 9), ?after 2)"
    by (simp add: eval_defs)
  have rd3: "readPacket (?sent ?c3 ?k3) = (Inr (?resp 1), ?after 2)"
    by (simp add: eval_defs)
  have a1: "Client_Authenticate ?c1 ''secret'' =
      (if ID (?resp (- 1)) = - 1 then (Some AuthenticationFailed, ?after 2)
       else if ID (?resp (- 1)) \<noteq> requestID ?c1 then (Some UnexpectedResponse, ?after 2)
       else (None, (?after 2)\<lparr>isAuthorized := True\<rparr>))"
    by (rule Authenticate_spec [THEN conjunct1, rule_format, where k = ?k1, THEN conjunct1])
      (intro conjI rd1; simp add: newMockConn_def NewClient_def)
  have a1': "Client_Authenticate ?c1' ''secret'' =
      (if ID (?resp (- 1)) = - 1 then (Some AuthenticationFailed, ?after 0)
       else if ID (?resp (- 1)) \<noteq> requestID ?c1' then (Some UnexpectedResponse, ?after 0)
       else (None, (?after 0)\<lparr>isAuthorized := True\<rparr>))"
    by (rule Authenticate_spec [THEN conjunct1, rule_format, where k = ?k1, THEN conjunct1])
      (intro conjI rd1'; simp add: newMockConn_def NewClient_def)
  have a2: "Client_Authenticate ?c2 ''secret'' =
      (if ID (?resp 9) = - 1 then (Some AuthenticationFailed, ?after 2)
       else if ID (?resp 9) \<noteq> requestID ?c2 then (Some UnexpectedResponse, ?after 2)
       else (None, (?after 2)\<lparr>isAuthorized := True\<rparr>))"
    by (rule Authenticate_spec [THEN conjunct1, rule_format, where k = ?k2, THEN conjunct1])
      (intro conjI rd2; simp add: newMockConn_def NewClient_def)
  have a3: "Client_Authenticate ?c3 ''secret'' =
      (if ID (?resp 1) = - 1 then (Some AuthenticationFailed, ?after 2)
       else if ID (?resp 1) \<noteq> requestID ?c3 then (Some UnexpectedResponse, ?after 2)
       else (None, (?after 2)\<lparr>isAuthorized := True\<rparr>))"
    by (rule Authenticate_spec [THEN conjunct1, rule_format, where k = ?k3, THEN conjunct1])
      (intro conjI rd3; simp add: newMockConn_def NewClient_def)
  have a2': "Client_Authenticate ?c2 ''secret'' = (Some UnexpectedResponse, ?after 2)"
    using a2 by (simp add: NewClient_def)
  have f2: "\<not> isAuthorized (?after 2)"
    by (rule Authenticate_spec [THEN conjunct2, rule_format, where c = ?c2
          and e = UnexpectedResponse and password = "''secret''"])
      (intro conjI a2'; simp add: NewClient_def)
  show ?thesis
    using a1 a1' a2' a3 f2 by (simp add: NewClient_def put_le32_def)
qed

section \<open>The state machine of the client\<close>

lemma same_handle_None: "same_handle a b \<Longrightarrow> (b = None) = (a = None)"
  by (cases a; cases b) (simp_all add: same_handle_def)

lemma Authenticate_success:
  assumes "Client_Authenticate c password = (None, c')"
  shows "isConnected c \<and> isConnected c' \<and> isAuthorized c' \<and> same_handle (conn c) (conn c')"
proof -
  from assms have pre: "isConnected c" "\<not> isAuthorized c"
    by (auto simp: Client_Authenticate_def split: if_splits)
  let ?c1 = "c\<lparr>requestID := requestID c + 1\<rparr>"
  let ?p = "\<lparr>Size = 0, ID = requestID c, Type = PacketTypeAuth, Body = password\<rparr>"
  obtain se c2 p' where s: "sendPacket ?c1 ?p = (se, c2, p')"
    by (metis prod_cases3)
  note f2 = sendPacket_frame [OF s]
  obtain r c3 where rd: "readPacket c2 = (r, c3)"
    by (metis surj_pair)
  note f3 = readPacket_frame [OF rd]
  from f2 f3 have sh: "same_handle (conn c) (conn c3)"
    by (simp add: same_handle_def)
  from pre s rd assms have "c' = c3\<lparr>isAuthorized := True\<rparr>"
    by (cases se; cases r)
      (auto simp: Client_Authenticate_def getNextRequestID_def split: if_splits)
  with pre f2 f3 sh show ?thesis
    by simp
qed

lemma Authenticate_failure_handle:
  assumes "Client_Authenticate c password = (Some e, c')"
  shows "same_handle (conn c) (conn c')"
proof (cases "isConnected c \<and> \<not> isAuthorized c")
  case False
  with assms show ?thesis
    by (auto simp: Client_Authenticate_def same_handle_def split: if_splits)
next
  case True
  let ?c1 = "c\<lparr>requestID := requestID c + 1\<rparr>"
  let ?p = "\<lparr>Size = 0, ID = requestID c, Type = PacketTypeAuth, Body = password\<rparr>"
  obtain se c2 p' where s: "sendPacket ?c1 ?p = (se, c2, p')"
    by (metis prod_cases3)
  note f2 = sendPacket_frame [OF s]
  obtain r c3 where rd: "readPacket c2 = (r, c3)"
    by (metis surj_pair)
  note f3 = readPacket_frame [OF rd]
  from f2 f3 have sh: "same_handle (conn c) (conn c3)"
    by (simp add: same_handle_def)
  from True s rd assms have "c' = c2 \<or> c' = c3"
    by (cases se; cases r)
      (auto simp: Client_Authenticate_def getNextRequestID_def split: if_splits)
  with f2 sh show ?thesis
    by auto
qed

lemma reachable_ok: "reachable c \<Longrightarrow> client_ok c"
proof (induction rule: reachable.induct)
  case r_new
  then show ?case by (simp add: client_ok_def NewClient_def)
next
  case (r_connect c dial address)
  then show ?case
    by (auto simp: client_ok_def Client_Connect_def split: option.splits)
next
  case (r_authenticate c password)
  obtain e c' where a: "Client_Authenticate c password = (e, c')"
    by (metis surj_pair)
  show ?case
  proof (cases e)
    case None
    with a Authenticate_success [of c password c'] r_authenticate.IH show ?thesis
      by (auto simp: client_ok_def dest: same_handle_None)
  next
    case (Some err)
    with a Authenticate_failure_frame [of c password err c']
      Authenticate_failure_handle [of c password err c'] r_authenticate.IH
    show ?thesis
      by (auto simp: client_ok_def dest: same_handle_None)
  qed
next
  case (r_execute c command)
  obtain r c' where x: "Client_Execute c command = (r, c')"
    by (metis surj_pair)
  with Execute_preserves [of c command] r_execute.IH show ?case
    by (auto simp: client_ok_def dest: same_handle_None)
next
  case (r_disconnect c)
  then show ?case
    by (auto simp: client_ok_def Client_Disconnect_def split: option.splits)
next
  case (r_world c k k')
  then show ?case
    by (simp add: client_ok_def)
qed

text \<open>
  C7. State-machine invariant: a client reached from \<open>NewClient\<close> by any sequence of
  \<open>Connect\<close>, \<open>Authenticate\<close>, \<open>Execute\<close> and \<open>Disconnect\<close>, with any outcomes, is
  connected whenever it is authenticated. And \<open>Execute\<close> goes past its two checks only
  with both flags true: with one of them false it returns the state error and leaves the
  client as it was.
\<close>

theorem client_invariant:
  "(reachable c \<longrightarrow> isAuthorized c \<longrightarrow> isConnected c)
   \<and> (\<not> (isConnected c \<and> isAuthorized c) \<longrightarrow>
        Client_Execute c command
          = (Inl (if isConnected c then NotAuthenticated else NotConnected), c))"
proof (intro conjI impI)
  assume "reachable c" and "isAuthorized c"
  then show "isConnected c"
    using reachable_ok [of c] by (simp add: client_ok_def)
next
  assume "\<not> (isConnected c \<and> isAuthorized c)"
  then show "Client_Execute c command
          = (Inl (if isConnected c then NotAuthenticated else NotConnected), c)"
    by (auto simp: Client_Execute_def)
qed

lemmas client_eval_defs = Client_Connect_def Client_Authenticate_def Client_Execute_def
  Client_Disconnect_def getNextRequestID_def sendPacket_def packetSize_def Let_def errorf_def
  failingClose_def IsConnected_def

text \<open>A client after a successful connect and authenticate, and a fresh one.\<close>

theorem client_invariant_witness:
  "reachable (snd (Client_Authenticate
       (snd (Client_Connect (\<lambda>a. Some (newMockConn [10, 0, 0, 0, 1, 0, 0, 0, 2, 0, 0, 0, 0, 0]))
              NewClient ''127.0.0.1:25575'')) ''secret''))
   \<and> isAuthorized (snd (Client_Authenticate
       (snd (Client_Connect (\<lambda>a. Some (newMockConn [10, 0, 0, 0, 1, 0, 0, 0, 2, 0, 0, 0, 0, 0]))
              NewClient ''127.0.0.1:25575'')) ''secret''))
   \<and> isConnected (snd (Client_Authenticate
       (snd (Client_Connect (\<lambda>a. Some (newMockConn [10, 0, 0, 0, 1, 0, 0, 0, 2, 0, 0, 0, 0, 0]))
              NewClient ''127.0.0.1:25575'')) ''secret''))
   \<and> Client_Execute NewClient ''status'' = (Inl NotConnected, NewClient)"
proof -
  let ?c = "snd (Client_Authenticate
       (snd (Client_Connect (\<lambda>a. Some (newMockConn [10, 0, 0, 0, 1, 0, 0, 0, 2, 0, 0, 0, 0, 0]))
              NewClient ''127.0.0.1:25575'')) ''secret'')"
  have r: "reachable ?c"
    by (intro reachable.intros)
  have a: "isAuthorized ?c"
    by (simp add: client_eval_defs eval_defs)
  from client_invariant [of ?c, THEN conjunct1] r a have c: "isConnected ?c"
    by blast
  from client_invariant [of NewClient "''status''", THEN conjunct2]
  have e: "Client_Execute NewClient ''status'' = (Inl NotConnected, NewClient)"
    by (simp add: NewClient_def)
  from r a c e show ?thesis
    by blast
qed

section \<open>The session registry: creation\<close>

text \<open>
  C8. \<open>CreateSession\<close>: when the id is already bound it fails with \<open>DuplicateSession\<close>,
  the world is as before and \<open>GetSession\<close> still returns the existing session. When the
  id is free it returns a session with the given id, name and address and the current
  timestamp, bound under the id; the session's client is at an address that was not
  allocated before and is a \<open>NewClient\<close>: no connection, not connected, not
  authenticated. The other clients and the other bindings are untouched.
\<close>

theorem CreateSession_spec:
  "(\<forall>existing. sessions w sid = Some existing \<longrightarrow>
       CreateSession w sid name address now = (Inl (DuplicateSession sid), w)
       \<and> GetSession (snd (CreateSession w sid name address now)) sid = Inr existing)
   \<and> (sessions w sid = None \<longrightarrow>
       (case CreateSession w sid name address now of
          (r, w') \<Rightarrow>
            r = Inr \<lparr>sess_ID = sid, sess_Client = length (heap w), sess_Address = address,
                     sess_Name = name, sess_Created = now\<rparr>
            \<and> GetSession w' sid = r
            \<and> deref (heap w) (length (heap w)) = None
            \<and> deref (heap w') (length (heap w)) = Some NewClient
            \<and> \<not> IsConnected NewClient \<and> \<not> IsAuthenticated NewClient \<and> conn NewClient = None
            \<and> (\<forall>p. p < length (heap w) \<longrightarrow> deref (heap w') p = deref (heap w) p)
            \<and> (\<forall>sid'. sid' \<noteq> sid \<longrightarrow> sessions w' sid' = sessions w sid')))"
proof (intro conjI allI impI)
  fix existing
  assume e: "sessions w sid = Some existing"
  then show "CreateSession w sid name address now = (Inl (DuplicateSession sid), w)"
    by (simp add: CreateSession_def)
  with e show "GetSession (snd (CreateSession w sid name address now)) sid = Inr existing"
    by (simp add: GetSession_def)
next
  assume "sessions w sid = None"
  then show "case CreateSession w sid name address now of
          (r, w') \<Rightarrow>
            r = Inr \<lparr>sess_ID = sid, sess_Client = length (heap w), sess_Address = address,
                     sess_Name = name, sess_Created = now\<rparr>
            \<and> GetSession w' sid = r
            \<and> deref (heap w) (length (heap w)) = None
            \<and> deref (heap w') (length (heap w)) = Some NewClient
            \<and> \<not> IsConnected NewClient \<and> \<not> IsAuthenticated NewClient \<and> conn NewClient = None
            \<and> (\<forall>p. p < length (heap w) \<longrightarrow> deref (heap w') p = deref (heap w) p)
            \<and> (\<forall>sid'. sid' \<noteq> sid \<longrightarrow> sessions w' sid' = sessions w sid')"
    by (simp add: CreateSession_def GetSession_def deref_def Let_def nth_append
        IsConnected_def IsAuthenticated_def NewClient_def)
qed

text \<open>Two calls with the id \<open>x\<close>: the second fails and the first session stays.\<close>

theorem CreateSession_spec_witness:
  "CreateSession (NewSessionManager []) ''x'' ''first'' ''127.0.0.1:25575'' 1700000000
     = (Inr \<lparr>sess_ID = ''x'', sess_Client = 0, sess_Address = ''127.0.0.1:25575'',
              sess_Name = ''first'', sess_Created = 1700000000\<rparr>,
        \<lparr>heap = [NewClient],
         sessions = [''x'' \<mapsto> \<lparr>sess_ID = ''x'', sess_Client = 0, sess_Address = ''127.0.0.1:25575'',
              sess_Name = ''first'', sess_Created = 1700000000\<rparr>]\<rparr>)
   \<and> CreateSession
        \<lparr>heap = [NewClient],
         sessions = [''x'' \<mapsto> \<lparr>sess_ID = ''x'', sess_Client = 0, sess_Address = ''127.0.0.1:25575'',
              sess_Name = ''first'', sess_Created = 1700000000\<rparr>]\<rparr>
        ''x'' ''second'' ''10.0.0.1:27015'' 1700000001
     = (Inl (DuplicateSession ''x''),
        \<lparr>heap = [NewClient],
         sessions = [''x'' \<mapsto> \<lparr>sess_ID = ''x'', sess_Client = 0, sess_Address = ''127.0.0.1:25575'',
              sess_Name = ''first'', sess_Created = 1700000000\<rparr>]\<rparr>)
   \<and> GetSession (snd (CreateSession
        \<lparr>heap = [NewClient],
         sessions = [''x'' \<mapsto> \<lparr>sess_ID = ''x'', sess_Client = 0, sess_Address = ''127.0.0.1:25575'',
              sess_Name = ''first'', sess_Created = 1700000000\<rparr>]\<rparr>
        ''x'' ''second'' ''10.0.0.1:27015'' 1700000001)) ''x''
     = Inr \<lparr>sess_ID = ''x'', sess_Client = 0, sess_Address = ''127.0.0.1:25575'',
              sess_Name = ''first'', sess_Created = 1700000000\<rparr>"
proof -
  let ?s = "\<lparr>sess_ID = ''x'', sess_Client = 0, sess_Address = ''127.0.0.1:25575'',
              sess_Name = ''first'', sess_Created = 1700000000\<rparr>"
  let ?w1 = "\<lparr>heap = [NewClient], sessions = [''x'' \<mapsto> ?s]\<rparr>"
  from CreateSession_spec [of "NewSessionManager []" "''x''" "''first''" "''127.0.0.1:25575''"
      1700000000, THEN conjunct2]
  have 1: "CreateSession (NewSessionManager []) ''x'' ''first'' ''127.0.0.1:25575'' 1700000000
     = (Inr ?s, ?w1)"
    by (simp add: NewSessionManager_def CreateSession_def Let_def)
  have pre: "sessions ?w1 ''x'' = Some ?s"
    by simp
  note dup = CreateSession_spec [of ?w1 "''x''" "''second''" "''10.0.0.1:27015''" 1700000001,
      THEN conjunct1, rule_format, OF pre]
  note 2 = dup [THEN conjunct1] and 3 = dup [THEN conjunct2]
  from 1 2 3 show ?thesis
    by (intro conjI)
qed

section \<open>Disconnecting\<close>

text \<open>
  What \<open>Disconnect\<close> does on a client that is not connected, after a close that
  succeeds, and after a close that fails.
\<close>

lemma Disconnect_disconnected: "\<not> isConnected c \<Longrightarrow> Client_Disconnect c = (None, c)"
  by (simp add: Client_Disconnect_def)

lemma Disconnect_success:
  assumes "client_ok c" and "Client_Disconnect c = (None, c')"
  shows "\<not> isConnected c' \<and> \<not> isAuthorized c' \<and> conn c' = None"
  using assms
  by (auto simp: client_ok_def Client_Disconnect_def split: if_splits option.splits)

lemma Disconnect_twice:
  assumes "client_ok c" and "Client_Disconnect c = (None, c')"
  shows "Client_Disconnect c' = (None, c')"
  using Disconnect_success [OF assms] by (simp add: Disconnect_disconnected)

lemma Disconnect_close_error:
  assumes "isConnected c" and "conn c = Some k" and "close_err k"
  shows "Client_Disconnect c
    = (Some (Wrapped ''failed to close connection'' (TransportError Close)), c)"
  using assms by (simp add: Client_Disconnect_def)

text \<open>
  C1. \<open>Disconnect\<close> is idempotent, and after any call, also one whose close fails, both
  flags are false and the handle is released. The first half holds
  (\<open>Disconnect_disconnected\<close>, \<open>Disconnect_twice\<close>), and so does the second after a
  close that succeeds (\<open>Disconnect_success\<close>). The second half fails when the close fails:
  \<open>Disconnect\<close> returns the error before it clears anything. The client below is reached
  by a connect and an authenticate on a connection whose \<open>Close\<close> fails; \<open>Disconnect\<close>
  returns the close error and leaves the client connected, authenticated and holding
  the connection.
\<close>

theorem Disconnect_close_error_keeps_state:
  "reachable
     \<lparr>conn = Some ((failingClose [])\<lparr>tx := [[16, 0, 0, 0, 1, 0, 0, 0, 3, 0, 0, 0,
                  115, 101, 99, 114, 101, 116, 0, 0]]\<rparr>),
      requestID = 2, isConnected = True, isAuthorized = True\<rparr>
   \<and> Client_Disconnect
     \<lparr>conn = Some ((failingClose [])\<lparr>tx := [[16, 0, 0, 0, 1, 0, 0, 0, 3, 0, 0, 0,
                  115, 101, 99, 114, 101, 116, 0, 0]]\<rparr>),
      requestID = 2, isConnected = True, isAuthorized = True\<rparr>
     = (Some (Wrapped ''failed to close connection'' (TransportError Close)),
        \<lparr>conn = Some ((failingClose [])\<lparr>tx := [[16, 0, 0, 0, 1, 0, 0, 0, 3, 0, 0, 0,
                  115, 101, 99, 114, 101, 116, 0, 0]]\<rparr>),
         requestID = 2, isConnected = True, isAuthorized = True\<rparr>)"
proof
  let ?c = "snd (Client_Authenticate
       (snd (Client_Connect (\<lambda>a. Some (failingClose [10, 0, 0, 0, 1, 0, 0, 0, 2, 0, 0, 0, 0, 0]))
              NewClient ''127.0.0.1:25575'')) ''secret'')"
  let ?d = "\<lparr>conn = Some ((failingClose [])\<lparr>tx := [[16, 0, 0, 0, 1, 0, 0, 0, 3, 0, 0, 0,
                  115, 101, 99, 114, 101, 116, 0, 0]]\<rparr>),
      requestID = 2, isConnected = True, isAuthorized = True\<rparr>"
  have "reachable ?c"
    by (intro reachable.intros)
  moreover have "?c = ?d"
    by (simp add: client_eval_defs eval_defs)
  ultimately show "reachable ?d"
    by simp
  show "Client_Disconnect ?d
     = (Some (Wrapped ''failed to close connection'' (TransportError Close)), ?d)"
    by (simp add: Client_Disconnect_def failingClose_def newMockConn_def)
qed

section \<open>The session registry: removal\<close>

lemma RemoveSession_absent:
  "sessions w sid = None \<Longrightarrow> RemoveSession w sid = (Some (SessionNotFound sid), w)"
  by (simp add: RemoveSession_def)

lemma RemoveSession_success:
  assumes "RemoveSession w sid = (None, w')"
  shows "GetSession w' sid = Inl (SessionNotFound sid)"
  using assms
  by (auto simp: RemoveSession_def GetSession_def split: option.splits if_splits prod.splits)

lemma RemoveSession_failure:
  assumes "RemoveSession w sid = (Some e, w')"
  shows "sessions w' = sessions w"
  using assms
  by (auto simp: RemoveSession_def split: option.splits if_splits prod.splits)

text \<open>
  C2. \<open>RemoveSession\<close> fails with \<open>SessionNotFound\<close> on an absent id
  (\<open>RemoveSession_absent\<close>), and after a call that succeeds \<open>GetSession\<close> fails with
  \<open>SessionNotFound\<close> (\<open>RemoveSession_success\<close>). The entry is not removed in every case
  where the id was present: when the disconnect fails, \<open>RemoveSession\<close> returns the
  wrapped error before the \<open>delete\<close>, and the bindings are those of before
  (\<open>RemoveSession_failure\<close>). Below, the session's client is connected on a connection
  whose \<open>Close\<close> fails; the world is unchanged and \<open>GetSession\<close> still returns the
  session.
\<close>

theorem RemoveSession_close_error_keeps_entry:
  "RemoveSession
     \<lparr>heap = [\<lparr>conn = Some (failingClose []), requestID = 1, isConnected = True,
               isAuthorized = False\<rparr>],
      sessions = [''s1'' \<mapsto> \<lparr>sess_ID = ''s1'', sess_Client = 0,
                    sess_Address = ''127.0.0.1:25575'', sess_Name = ''srv'',
                    sess_Created = 1700000000\<rparr>]\<rparr> ''s1''
     = (Some (Wrapped ''failed to disconnect client''
               (Wrapped ''failed to close connection'' (TransportError Close))),
        \<lparr>heap = [\<lparr>conn = Some (failingClose []), requestID = 1, isConnected = True,
               isAuthorized = False\<rparr>],
         sessions = [''s1'' \<mapsto> \<lparr>sess_ID = ''s1'', sess_Client = 0,
                    sess_Address = ''127.0.0.1:25575'', sess_Name = ''srv'',
                    sess_Created = 1700000000\<rparr>]\<rparr>)
   \<and> GetSession (snd (RemoveSession
     \<lparr>heap = [\<lparr>conn = Some (failingClose []), requestID = 1, isConnected = True,
               isAuthorized = False\<rparr>],
      sessions = [''s1'' \<mapsto> \<lparr>sess_ID = ''s1'', sess_Client = 0,
                    sess_Address = ''127.0.0.1:25575'', sess_Name = ''srv'',
                    sess_Created = 1700000000\<rparr>]\<rparr> ''s1'')) ''s1''
     = Inr \<lparr>sess_ID = ''s1'', sess_Client = 0,
                    sess_Address = ''127.0.0.1:25575'', sess_Name = ''srv'',
                    sess_Created = 1700000000\<rparr>"
  by (simp add: RemoveSession_def GetSession_def deref_def client_eval_defs newMockConn_def)

section \<open>The connect tool: rollback\<close>

lemma same_handle_close_err:
  "same_handle (Some k) b \<Longrightarrow> \<exists>k'. b = Some k' \<and> close_err k' = close_err k"
  by (cases b) (auto simp: same_handle_def dest: arg_cong [where f = close_err])

lemma Connect_duplicate:
  assumes "sessions w (SessionID params) = Some s"
  shows "Connect dial now w params
    = (Inl (Wrapped ''failed to create session'' (DuplicateSession (SessionID params))), w)"
  using assms by (simp add: Connect_def CreateSession_def errorf_def)

lemma Connect_dial_failure_rolls_back:
  assumes "sessions w (SessionID params) = None" and "dial (Address params) = None"
  shows "fst (Connect dial now w params)
      = Inl (Wrapped ''failed to connect'' (Wrapped ''failed to connect'' (TransportError Dial)))
    \<and> GetSession (snd (Connect dial now w params)) (SessionID params)
      = Inl (SessionNotFound (SessionID params))"
  using assms
  by (simp add: Connect_def CreateSession_def Let_def deref_def NewClient_def Client_Connect_def
      RemoveSession_def IsConnected_def GetSession_def errorf_def)

lemma Connect_auth_failure_rolls_back:
  assumes free: "sessions w (SessionID params) = None"
    and dial: "dial (Address params) = Some k"
    and close: "\<not> close_err k"
    and auth: "Client_Authenticate (NewClient\<lparr>conn := Some k, isConnected := True\<rparr>)
                 (Password params) = (Some e, c2)"
  shows "GetSession (snd (Connect dial now w params)) (SessionID params)
      = Inl (SessionNotFound (SessionID params))"
proof -
  let ?c1 = "NewClient\<lparr>conn := Some k, isConnected := True\<rparr>"
  from Authenticate_failure_frame [OF auth] have con: "isConnected c2"
    by simp
  from Authenticate_failure_handle [OF auth] have "same_handle (Some k) (conn c2)"
    by simp
  then obtain k2 where k2: "conn c2 = Some k2" "close_err k2 = close_err k"
    by (blast dest: same_handle_close_err)
  with con close have dis: "Client_Disconnect c2
      = (None, c2\<lparr>conn := None, isConnected := False, isAuthorized := False\<rparr>)"
    by (simp add: Client_Disconnect_def)
  have c1: "Client_Connect dial NewClient (Address params) = (None, ?c1)"
    using dial by (simp add: Client_Connect_def NewClient_def)
  show ?thesis
    using free
    by (simp add: Connect_def CreateSession_def Let_def deref_def c1 auth RemoveSession_def
        IsConnected_def con dis GetSession_def)
qed

text \<open>
  C9. \<open>Connect\<close> composes \<open>CreateSession\<close>, \<open>Client.Connect\<close> and
  \<open>Client.Authenticate\<close>, and removes the session when the dial or the authentication
  fails. After a failed dial the session is gone (\<open>Connect_dial_failure_rolls_back\<close>),
  and after a failed authentication too when the connection closes without error
  (\<open>Connect_auth_failure_rolls_back\<close>). It is not gone for every input: below the peer
  rejects the password (response id \<open>-1\<close>) and the \<open>Close\<close> of the rollback fails, so
  \<open>RemoveSession\<close> returns before its \<open>delete\<close>, \<open>Connect\<close> discards that error, and
  the session \<open>s1\<close> is still in the registry after the failed connect.
\<close>

theorem Connect_auth_failure_keeps_session:
  "fst (Connect (\<lambda>a. Some (failingClose [10, 0, 0, 0, 255, 255, 255, 255, 2, 0, 0, 0, 0, 0]))
         1700000000 (NewSessionManager [])
         \<lparr>SessionID = ''s1'', Name = ''srv'', Address = ''127.0.0.1:25575'', Password = ''wrong''\<rparr>)
     = Inl (Wrapped ''failed to authenticate'' AuthenticationFailed)
   \<and> GetSession (snd (Connect
         (\<lambda>a. Some (failingClose [10, 0, 0, 0, 255, 255, 255, 255, 2, 0, 0, 0, 0, 0]))
         1700000000 (NewSessionManager [])
         \<lparr>SessionID = ''s1'', Name = ''srv'', Address = ''127.0.0.1:25575'', Password = ''wrong''\<rparr>))
       ''s1''
     = Inr \<lparr>sess_ID = ''s1'', sess_Client = 0, sess_Address = ''127.0.0.1:25575'',
            sess_Name = ''srv'', sess_Created = 1700000000\<rparr>"
  by (simp add: Connect_def CreateSession_def NewSessionManager_def RemoveSession_def
      GetSession_def deref_def client_eval_defs eval_defs)

end
